theory Spec2Isabelle
  imports Main "HOL-Library.Sublist"
begin

section \<open>Strings\<close>

text \<open>
  The program is TypeScript; its strings are modelled as HOL strings, read as sequences of
  code points in the range U+0000..U+00FF (Latin-1).  On that range
  \<^verbatim>\<open>String.prototype.toLowerCase\<close> maps A..Z and the accented capitals U+00C0..U+00DE
  (except the multiplication sign U+00D7) to the code point 32 higher and leaves everything
  else alone, and \<^verbatim>\<open>String.prototype.trim\<close> removes the white space and line terminator
  code points 9..13, 32 and 160 from both ends.  Beyond that range lower-casing is no longer
  a map on single characters (a capital sigma lower-cases differently at the end of a word),
  so what is proved here about lower-casing speaks of inputs within the range only.
\<close>

definition isUpperCase :: "char \<Rightarrow> bool" where
  "isUpperCase c =
     (let n = (of_char c :: nat)
      in (65 \<le> n \<and> n \<le> 90) \<or> (192 \<le> n \<and> n \<le> 222 \<and> n \<noteq> 215))"

definition toLowerChar :: "char \<Rightarrow> char" where
  "toLowerChar c = (if isUpperCase c then char_of ((of_char c :: nat) + 32) else c)"

definition toLowerCase :: "string \<Rightarrow> string" where
  "toLowerCase s = map toLowerChar s"

definition isWhiteSpace :: "char \<Rightarrow> bool" where
  "isWhiteSpace c =
     (let n = (of_char c :: nat) in (9 \<le> n \<and> n \<le> 13) \<or> n = 32 \<or> n = 160)"

definition trim :: "string \<Rightarrow> string" where
  "trim s = rev (dropWhile isWhiteSpace (rev (dropWhile isWhiteSpace s)))"

text \<open>\<^verbatim>\<open>s.startsWith(q)\<close> and \<^verbatim>\<open>s.includes(q)\<close>.\<close>

definition startsWith :: "string \<Rightarrow> string \<Rightarrow> bool" where
  "startsWith s q = (take (length q) s = q)"

fun includes_str :: "string \<Rightarrow> string \<Rightarrow> bool" where
  "includes_str [] q = (q = [])"
| "includes_str (c # cs) q = (startsWith (c # cs) q \<or> includes_str cs q)"

text \<open>\<^verbatim>\<open>xs.slice(0, n)\<close> on an array.\<close>

definition slice0 :: "nat \<Rightarrow> 'a list \<Rightarrow> 'a list" where
  "slice0 n xs = take n xs"

section \<open>Suggestion data\<close>

definition COMMON_SPECIES :: "(string \<times> string) list" where
  "COMMON_SPECIES =
     [(''Panthera leo'', ''Lion''),
      (''Elephas maximus'', ''Asian Elephant''),
      (''Ursus arctos'', ''Brown Bear''),
      (''Canis lupus'', ''Gray Wolf''),
      (''Felis catus'', ''Domestic Cat''),
      (''Equus caballus'', ''Horse''),
      (''Bos taurus'', ''Domestic Cattle''),
      (''Sus scrofa'', ''Wild Boar''),
      (''Vulpes vulpes'', ''Red Fox''),
      (''Homo sapiens'', ''Human'')]"

definition ALL_SCIENTIFIC_NAMES :: "string list" where
  "ALL_SCIENTIFIC_NAMES =
     map fst COMMON_SPECIES @
     [''Panthera tigris'', ''Ailuropoda melanoleuca'', ''Giraffa camelopardalis'',
      ''Hippopotamus amphibius'', ''Crocodylus niloticus'', ''Struthio camelus'',
      ''Spheniscus demersus'', ''Gorilla gorilla'', ''Pan troglodytes'', ''Pongo pygmaeus'']"

section \<open>Autocomplete\<close>

text \<open>
  The taxonomy chart's autocomplete effect, as a function of the debounced input and the
  name list: the value handed to \<^verbatim>\<open>setSuggestions\<close>.
\<close>

definition suggestions_from :: "string list \<Rightarrow> string \<Rightarrow> string list" where
  "suggestions_from names debouncedInput =
     (let q = trim debouncedInput
      in if length q = 0 then []
         else let lowerQ = toLowerCase q;
                  starts = filter (\<lambda>n. startsWith (toLowerCase n) lowerQ) names;
                  includes_only = filter (\<lambda>n. \<not> startsWith (toLowerCase n) lowerQ
                                              \<and> includes_str (toLowerCase n) lowerQ) names
              in slice0 10 (starts @ includes_only))"

definition suggestions :: "string \<Rightarrow> string list" where
  "suggestions debouncedInput = suggestions_from ALL_SCIENTIFIC_NAMES debouncedInput"

text \<open>
  The species search page's autocomplete effect: a substring filter in list order, capped
  at ten.
\<close>

definition search_suggestions_from :: "string list \<Rightarrow> string \<Rightarrow> string list" where
  "search_suggestions_from names debouncedInput =
     (let q = trim debouncedInput
      in if length q = 0 then []
         else slice0 10 (filter (\<lambda>name. includes_str (toLowerCase name) (toLowerCase q)) names))"

definition search_suggestions :: "string \<Rightarrow> string list" where
  "search_suggestions debouncedInput = search_suggestions_from ALL_SCIENTIFIC_NAMES debouncedInput"

section \<open>Result types\<close>

record TaxonomyLevel =
  rank :: string
  name :: string
  description :: "string option"

record TaxonomyData =
  species :: string
  hierarchy :: "TaxonomyLevel list"
  funFact :: string

record ITISResult =
  tsn :: "string option"
  itisScientificName :: "string option"
  itisCommonNames :: "string list option"
  citation :: "string option"
  itisSourceUrl :: "string option"

record GBIFResult =
  gbifUsageKey :: "nat option"
  canonicalName :: "string option"
  gbifKingdom :: "string option"
  distribution :: "string option"
  gbifCommonNames :: "string list option"
  gbifSourceUrl :: "string option"

record WikiResult =
  extractText :: "string option"
  pageUrl :: "string option"

record RankFetchResult =
  itis :: "ITISResult option"
  gbif :: "GBIFResult option"
  wiki :: "WikiResult option"
  combinedSummary :: "string option"
  fetchedAt :: int
  error :: "string option"

section \<open>The network boundary\<close>

text \<open>
  What a call of \<^verbatim>\<open>fetch\<close> followed by \<^verbatim>\<open>res.json()\<close> can do: the fetch promise rejects
  (transport failure, or the abort fired by the timeout of \<^verbatim>\<open>fetchWithTimeout\<close>), or it
  resolves to a response with its \<^verbatim>\<open>ok\<close> flag, whose body either parses to a JSON object
  (\<open>Some\<close>) or makes \<^verbatim>\<open>res.json()\<close> reject (\<open>None\<close>).
\<close>

datatype 'a http = Rejected string | Response bool "'a option"

text \<open>The fields the program reads from the three JSON bodies; an absent field is \<open>None\<close>.\<close>

record match_json =
  usageKey :: "nat option"

record species_json =
  sj_kingdom :: "string option"
  sj_phylum :: "string option"
  sj_class :: "string option"
  sj_order :: "string option"
  sj_family :: "string option"
  sj_genus :: "string option"
  sj_species :: "string option"

record wiki_json =
  wj_extract :: "string option"
  wj_desktop_page :: "string option"

text \<open>The requests the program issues, by endpoint and argument.\<close>

datatype request = GbifMatch string | GbifSpecies nat | WikiSummary string

record providers =
  gbif_match :: "string \<Rightarrow> match_json http"
  gbif_species :: "nat \<Rightarrow> species_json http"
  wiki_summary :: "string \<Rightarrow> wiki_json http"

text \<open>
  Thrown values: a rejected fetch, a rejected \<^verbatim>\<open>res.json()\<close>, and \<^verbatim>\<open>new Error(message)\<close>.
\<close>

datatype js_error = FetchError string | JsonError | PlainError string

text \<open>
  \<^verbatim>\<open>err.message\<close>; the text of the syntax error of a body that does not parse depends on
  the browser and is fixed here.
\<close>

fun message :: "js_error \<Rightarrow> string" where
  "message (FetchError m) = m"
| "message JsonError = ''Unexpected token in JSON''"
| "message (PlainError m) = m"

definition NotFoundError :: js_error where
  "NotFoundError = PlainError ''No taxonomy found''"

text \<open>\<^verbatim>\<open>x || d\<close> on an optional string: absent and empty are both falsy.\<close>

definition or_else :: "string option \<Rightarrow> string \<Rightarrow> string" where
  "or_else x d = (case x of None \<Rightarrow> d | Some s \<Rightarrow> if s = [] then d else s)"

text \<open>\<^verbatim>\<open>x || undefined\<close> on an optional string.\<close>

definition or_undefined :: "string option \<Rightarrow> string option" where
  "or_undefined x = (case x of None \<Rightarrow> None | Some s \<Rightarrow> if s = [] then None else Some s)"

text \<open>A JSON number is truthy unless it is zero.\<close>

definition truthy_key :: "nat option \<Rightarrow> nat option" where
  "truthy_key k = (case k of None \<Rightarrow> None | Some n \<Rightarrow> if n = 0 then None else Some n)"

text \<open>
  \<^verbatim>\<open>encodeURIComponent\<close> on code points below 256: unreserved characters stay, every other
  one is written as the percent-escaped bytes of its UTF-8 encoding.
\<close>

definition isUnreserved :: "char \<Rightarrow> bool" where
  "isUnreserved c =
     (let n = (of_char c :: nat)
      in (65 \<le> n \<and> n \<le> 90) \<or> (97 \<le> n \<and> n \<le> 122) \<or> (48 \<le> n \<and> n \<le> 57)
         \<or> c \<in> set ''-_.!~*()'' \<or> n = 39)"

definition hexDigit :: "nat \<Rightarrow> char" where
  "hexDigit d = ''0123456789ABCDEF'' ! (d mod 16)"

definition percent :: "nat \<Rightarrow> string" where
  "percent b = [CHR ''%'', hexDigit (b div 16), hexDigit b]"

definition encodeChar :: "char \<Rightarrow> string" where
  "encodeChar c =
     (let n = (of_char c :: nat)
      in if isUnreserved c then [c]
         else if n < 128 then percent n
         else percent (192 + n div 64) @ percent (128 + n mod 64))"

definition encodeURIComponent :: "string \<Rightarrow> string" where
  "encodeURIComponent s = concat (map encodeChar s)"

section \<open>Taxonomy lookup\<close>

definition RANKS :: "string list" where
  "RANKS = [''Kingdom'', ''Phylum'', ''Class'', ''Order'', ''Family'', ''Genus'', ''Species'']"

text \<open>
  The array literal of \<^verbatim>\<open>generateTaxonomyHierarchy\<close> and its
  \<^verbatim>\<open>.filter(level => level.name)\<close>.
\<close>

definition all_levels :: "species_json \<Rightarrow> string \<Rightarrow> TaxonomyLevel list" where
  "all_levels speciesJson scientificName =
     [\<lparr>rank = ''Kingdom'', name = or_else (sj_kingdom speciesJson) [],
        description = Some ''Highest rank grouping all animals.''\<rparr>,
      \<lparr>rank = ''Phylum'', name = or_else (sj_phylum speciesJson) [],
        description = Some ''Major lineage within the kingdom.''\<rparr>,
      \<lparr>rank = ''Class'', name = or_else (sj_class speciesJson) [],
        description = Some ''Group of related orders.''\<rparr>,
      \<lparr>rank = ''Order'', name = or_else (sj_order speciesJson) [],
        description = Some ''Group of related families.''\<rparr>,
      \<lparr>rank = ''Family'', name = or_else (sj_family speciesJson) [],
        description = Some ''Group of related genera.''\<rparr>,
      \<lparr>rank = ''Genus'', name = or_else (sj_genus speciesJson) [],
        description = Some ''Group of closely related species.''\<rparr>,
      \<lparr>rank = ''Species'', name = or_else (sj_species speciesJson) scientificName,
        description = Some ''Specific organism.''\<rparr>]"

definition build_hierarchy :: "species_json \<Rightarrow> string \<Rightarrow> TaxonomyLevel list" where
  "build_hierarchy speciesJson scientificName =
     filter (\<lambda>level. name level \<noteq> []) (all_levels speciesJson scientificName)"

text \<open>The fun fact: the try/catch around the Wikipedia summary request.\<close>

definition fun_fact :: "wiki_json http \<Rightarrow> string" where
  "fun_fact wikiRes =
     (case wikiRes of
        Rejected m \<Rightarrow> ''No fun fact found.''
      | Response ok body \<Rightarrow>
          if ok then
            (case body of
               None \<Rightarrow> ''No fun fact found.''
             | Some wikiJson \<Rightarrow> or_else (wj_extract wikiJson) ''No fun fact found.'')
          else ''No fun fact found.'')"

text \<open>
  \<^verbatim>\<open>generateTaxonomyHierarchy\<close>: the requests it issued, in order, and the value the promise
  settles with (\<open>Inl\<close> a rejection).  The GBIF responses are not checked for \<^verbatim>\<open>ok\<close>.
\<close>

definition generateTaxonomyHierarchy ::
  "providers \<Rightarrow> string \<Rightarrow> request list \<times> (js_error + TaxonomyData)" where
  "generateTaxonomyHierarchy env scientificName =
     (case gbif_match env scientificName of
        Rejected m \<Rightarrow> ([GbifMatch scientificName], Inl (FetchError m))
      | Response ok None \<Rightarrow> ([GbifMatch scientificName], Inl JsonError)
      | Response ok (Some matchJson) \<Rightarrow>
          (case truthy_key (usageKey matchJson) of
             None \<Rightarrow> ([GbifMatch scientificName], Inl (PlainError ''No taxonomy found''))
           | Some key \<Rightarrow>
               (case gbif_species env key of
                  Rejected m \<Rightarrow> ([GbifMatch scientificName, GbifSpecies key], Inl (FetchError m))
                | Response ok' None \<Rightarrow>
                    ([GbifMatch scientificName, GbifSpecies key], Inl JsonError)
                | Response ok' (Some speciesJson) \<Rightarrow>
                    ([GbifMatch scientificName, GbifSpecies key, WikiSummary scientificName],
                     Inr \<lparr>species = scientificName,
                          hierarchy = build_hierarchy speciesJson scientificName,
                          funFact = fun_fact (wiki_summary env scientificName)\<rparr>))))"

text \<open>
  \<^verbatim>\<open>generateTaxonomy\<close>, the only caller: it rejects a blank name before any request, and
  turns a rejection into a toast.
\<close>

datatype toast = Toast string string "string option"

record page =
  taxonomyData :: "TaxonomyData option"
  loading :: bool
  toasts :: "toast list"
  requests :: "request list"

datatype outcome = Blank | Failed js_error | Generated TaxonomyData

definition generateTaxonomy_outcome :: "providers \<Rightarrow> string \<Rightarrow> outcome" where
  "generateTaxonomy_outcome env scientificName =
     (if trim scientificName = [] then Blank
      else case snd (generateTaxonomyHierarchy env scientificName) of
             Inr taxonomy \<Rightarrow> Generated taxonomy
           | Inl err \<Rightarrow> Failed err)"

definition generateTaxonomy :: "providers \<Rightarrow> string \<Rightarrow> page \<Rightarrow> page" where
  "generateTaxonomy env scientificName pg =
     (if trim scientificName = [] then
        pg\<lparr>toasts := toasts pg @
             [Toast ''Please enter a scientific name''
                ''Enter a valid animal scientific name to generate taxonomy.''
                (Some ''destructive'')]\<rparr>
      else
        let pg1 = pg\<lparr>loading := True\<rparr>;
            (reqs, res) = generateTaxonomyHierarchy env scientificName;
            pg2 = pg1\<lparr>requests := requests pg1 @ reqs\<rparr>
        in (case res of
              Inr taxonomy \<Rightarrow>
                pg2\<lparr>taxonomyData := Some taxonomy,
                     toasts := toasts pg2 @
                       [Toast ''Taxonomy generated!''
                          (''Successfully created taxonomy chart for '' @ scientificName) None],
                     loading := False\<rparr>
            | Inl err \<Rightarrow>
                pg2\<lparr>toasts := toasts pg2 @
                       [Toast ''Generation failed''
                          ''Could not generate taxonomy. Please try again.''
                          (Some ''destructive'')],
                     loading := False\<rparr>))"

section \<open>Per-rank cache\<close>

text \<open>
  The module-level maps \<^verbatim>\<open>rankCache\<close> and \<^verbatim>\<open>rankLastFetchTime\<close>, the two pieces of React
  state the refresh touches, and the requests issued so far.
\<close>

record engine =
  rankCache :: "string \<rightharpoonup> RankFetchResult"
  rankLastFetchTime :: "string \<rightharpoonup> int"
  rankLoading :: "string \<rightharpoonup> bool"
  openRanks :: "string \<rightharpoonup> bool"
  network :: "request list"

definition RANK_FETCH_THROTTLE_MS :: int where
  "RANK_FETCH_THROTTLE_MS = 1000"

definition engine0 :: engine where
  "engine0 = \<lparr>rankCache = Map.empty, rankLastFetchTime = Map.empty,
              rankLoading = Map.empty, openRanks = Map.empty, network = []\<rparr>"

text \<open>
  \<^verbatim>\<open>fetchWiki\<close>: the body of its try block, and the function with its catch.  The promise
  it returns is modelled with the rejection as \<open>Inl\<close>, although the catch leaves none.
\<close>

definition fetchWiki_try :: "string \<Rightarrow> wiki_json http \<Rightarrow> js_error + WikiResult option" where
  "fetchWiki_try levelName res =
     (case res of
        Rejected m \<Rightarrow> Inl (FetchError m)
      | Response ok body \<Rightarrow>
          if \<not> ok then Inr None
          else (case body of
                  None \<Rightarrow> Inl JsonError
                | Some json \<Rightarrow>
                    Inr (Some \<lparr>extractText = or_undefined (wj_extract json),
                               pageUrl = Some (or_else (wj_desktop_page json)
                                 (''https://en.wikipedia.org/wiki/'' @ encodeURIComponent levelName))\<rparr>)))"

definition fetchWiki :: "string \<Rightarrow> wiki_json http \<Rightarrow> js_error + WikiResult option" where
  "fetchWiki levelName res =
     (case fetchWiki_try levelName res of Inl err \<Rightarrow> Inr None | Inr r \<Rightarrow> Inr r)"

text \<open>
  \<^verbatim>\<open>aggregateRankData\<close> is an async function.  Its synchronous part runs up to the
  \<^verbatim>\<open>fetch\<close> call inside \<^verbatim>\<open>fetchWiki\<close>: it either returns the cached entry, or records the time
  and issues the request.  The rest runs when the response has arrived, possibly after other
  calls have started.
\<close>

datatype 'a started = Returned 'a | Awaiting

definition aggregateRankData_start ::
  "string \<Rightarrow> int \<Rightarrow> engine \<Rightarrow> RankFetchResult started \<times> engine" where
  "aggregateRankData_start levelName now st =
     (let key = toLowerCase levelName;
          last = (case rankLastFetchTime st key of None \<Rightarrow> 0 | Some t \<Rightarrow> t)
      in if now - last < RANK_FETCH_THROTTLE_MS \<and> rankCache st key \<noteq> None
         then (Returned (the (rankCache st key)), st)
         else (Awaiting,
               st\<lparr>rankLastFetchTime := (rankLastFetchTime st)(key \<mapsto> now),
                  network := network st @ [WikiSummary levelName]\<rparr>))"

definition aggregateRankData_finish ::
  "string \<Rightarrow> wiki_json http \<Rightarrow> int \<Rightarrow> engine \<Rightarrow> js_error + (RankFetchResult \<times> engine)" where
  "aggregateRankData_finish levelName res now st =
     (let key = toLowerCase levelName
      in case fetchWiki levelName res of
           Inr w \<Rightarrow>
             (let result = \<lparr>itis = None, gbif = None, wiki = w, combinedSummary = None,
                            fetchedAt = now, error = None\<rparr>
              in Inr (result, st\<lparr>rankCache := (rankCache st)(key \<mapsto> result)\<rparr>))
         | Inl err \<Rightarrow>
             (let fallback = \<lparr>itis = None, gbif = None, wiki = None,
                              combinedSummary =
                                Some ''Failed to retrieve remote data. Showing fallback content.'',
                              fetchedAt = now,
                              error = Some (message err)\<rparr>
              in Inr (fallback, st\<lparr>rankCache := (rankCache st)(key \<mapsto> fallback)\<rparr>)))"

text \<open>A call that runs to its end with nothing else touching the engine in between.\<close>

definition aggregateRankData ::
  "string \<Rightarrow> int \<Rightarrow> wiki_json http \<Rightarrow> int \<Rightarrow> engine \<Rightarrow> js_error + (RankFetchResult \<times> engine)" where
  "aggregateRankData levelName now res now' st =
     (case aggregateRankData_start levelName now st of
        (Returned cached, st1) \<Rightarrow> Inr (cached, st1)
      | (Awaiting, st1) \<Rightarrow> aggregateRankData_finish levelName res now' st1)"

text \<open>
  \<^verbatim>\<open>refreshRank\<close>: its synchronous part deletes both map entries, sets the loading flag and
  enters \<^verbatim>\<open>aggregateRankData\<close>; the rest handles the settled promise.
\<close>

definition refreshRank_start ::
  "string \<Rightarrow> int \<Rightarrow> engine \<Rightarrow> RankFetchResult started \<times> engine" where
  "refreshRank_start levelName now st =
     (let key = toLowerCase levelName;
          st1 = st\<lparr>rankCache := (rankCache st)(key := None)\<rparr>;
          st2 = st1\<lparr>rankLastFetchTime := (rankLastFetchTime st1)(key := None)\<rparr>;
          st3 = st2\<lparr>rankLoading := (rankLoading st2)(key \<mapsto> True)\<rparr>
      in aggregateRankData_start levelName now st3)"

definition refreshRank_settle ::
  "string \<Rightarrow> js_error + (RankFetchResult \<times> engine) \<Rightarrow> engine
     \<Rightarrow> js_error + (RankFetchResult option \<times> engine)" where
  "refreshRank_settle levelName settled st =
     (let key = toLowerCase levelName
      in case settled of
           Inr (res, st') \<Rightarrow>
             Inr (Some res,
                  st'\<lparr>rankLoading := (rankLoading st')(key \<mapsto> False),
                      openRanks := (openRanks st')(key \<mapsto> True)\<rparr>)
         | Inl err \<Rightarrow> Inr (None, st\<lparr>rankLoading := (rankLoading st)(key \<mapsto> False)\<rparr>))"

definition refreshRank ::
  "string \<Rightarrow> int \<Rightarrow> wiki_json http \<Rightarrow> int \<Rightarrow> engine
     \<Rightarrow> js_error + (RankFetchResult option \<times> engine)" where
  "refreshRank levelName now res now' st =
     (case refreshRank_start levelName now st of
        (Returned cached, st1) \<Rightarrow> refreshRank_settle levelName (Inr (cached, st1)) st1
      | (Awaiting, st1) \<Rightarrow>
          refreshRank_settle levelName (aggregateRankData_finish levelName res now' st1) st1)"

section \<open>Notions used to state the properties\<close>

text \<open>The Wikipedia lookup failed: the request was rejected, or answered with a status
  that is not a success, or with a body that does not parse.\<close>

definition wiki_failed :: "wiki_json http \<Rightarrow> bool" where
  "wiki_failed res =
     (case res of Rejected m \<Rightarrow> True | Response ok body \<Rightarrow> (if ok then body = None else True))"

text \<open>
  The capital and small letters of the code points below 256, as a table that does not
  refer to the lower-casing of the program: A..Z with a..z, U+00C0..U+00D6 with
  U+00E0..U+00F6, and U+00D8..U+00DE with U+00F8..U+00FE, each small letter 32 above its
  capital.  Two characters are the same letter when they are equal or form such a pair in
  either order; two strings differ only in letter casing when they have the same length and
  the same letter at every position.
\<close>

definition case_pair :: "char \<Rightarrow> char \<Rightarrow> bool" where
  "case_pair u l =
     (let a = (of_char u :: nat); b = (of_char l :: nat)
      in if b = a + 32
         then (65 \<le> a \<and> a \<le> 90) \<or> (192 \<le> a \<and> a \<le> 214) \<or> (216 \<le> a \<and> a \<le> 222)
         else False)"

definition same_letter :: "char \<Rightarrow> char \<Rightarrow> bool" where
  "same_letter c d = (if c = d then True else if case_pair c d then True else case_pair d c)"

definition differ_only_in_case :: "string \<Rightarrow> string \<Rightarrow> bool" where
  "differ_only_in_case a b = list_all2 same_letter a b"

text \<open>A field of a JSON body that is present and not empty, and the name a field resolves
  to: empty when the field is absent.\<close>

definition populated :: "string option \<Rightarrow> bool" where
  "populated x = (case x of None \<Rightarrow> False | Some s \<Rightarrow> s \<noteq> [])"

definition resolved_name :: "string option \<Rightarrow> string" where
  "resolved_name x = (case x of None \<Rightarrow> [] | Some s \<Rightarrow> s)"

text \<open>The query of a suggestion request, and the two tiers of names it selects, stated with
  the prefix and contiguous-sublist orders of the list library.\<close>

definition query_of :: "string \<Rightarrow> string" where
  "query_of partial = toLowerCase (trim partial)"

definition starts_with_query :: "string \<Rightarrow> string \<Rightarrow> bool" where
  "starts_with_query partial n = prefix (query_of partial) (toLowerCase n)"

definition contains_query :: "string \<Rightarrow> string \<Rightarrow> bool" where
  "contains_query partial n = sublist (query_of partial) (toLowerCase n)"

definition merely_contains_query :: "string \<Rightarrow> string \<Rightarrow> bool" where
  "merely_contains_query partial n =
     (if starts_with_query partial n then False else contains_query partial n)"

section \<open>Sample data\<close>

definition felidae_json :: wiki_json where
  "felidae_json = \<lparr>wj_extract = Some ''Felidae is the family of mammals known as cats.'',
                   wj_desktop_page = Some ''https://en.wikipedia.org/wiki/Felidae''\<rparr>"

definition felidae_entry :: RankFetchResult where
  "felidae_entry =
     \<lparr>itis = None, gbif = None,
      wiki = Some \<lparr>extractText = Some ''Felidae is the family of mammals known as cats.'',
                   pageUrl = Some ''https://en.wikipedia.org/wiki/Felidae''\<rparr>,
      combinedSummary = None, fetchedAt = 5200, error = None\<rparr>"

definition felidae_cached :: engine where
  "felidae_cached =
     \<lparr>rankCache = [''felidae'' \<mapsto> felidae_entry], rankLastFetchTime = [''felidae'' \<mapsto> 5000],
      rankLoading = Map.empty, openRanks = Map.empty, network = [WikiSummary ''Felidae'']\<rparr>"

definition homo_sapiens_json :: species_json where
  "homo_sapiens_json =
     \<lparr>sj_kingdom = Some ''Animalia'', sj_phylum = Some ''Chordata'',
      sj_class = Some ''Mammalia'', sj_order = Some ''Primates'',
      sj_family = Some ''Hominidae'', sj_genus = Some ''Homo'',
      sj_species = Some ''Homo sapiens''\<rparr>"

definition genus_only_json :: species_json where
  "genus_only_json =
     \<lparr>sj_kingdom = Some ''Animalia'', sj_phylum = None, sj_class = Some [],
      sj_order = Some ''Primates'', sj_family = None, sj_genus = Some ''Homo'',
      sj_species = None\<rparr>"

definition gbif_ok :: providers where
  "gbif_ok =
     \<lparr>gbif_match = (\<lambda>n. Response True (Some \<lparr>usageKey = Some 2436436\<rparr>)),
      gbif_species = (\<lambda>k. Response True (Some genus_only_json)),
      wiki_summary = (\<lambda>n. Rejected ''Failed to fetch'')\<rparr>"

definition gbif_no_match :: providers where
  "gbif_no_match =
     \<lparr>gbif_match = (\<lambda>n. Response True (Some \<lparr>usageKey = None\<rparr>)),
      gbif_species = (\<lambda>k. Response True (Some homo_sapiens_json)),
      wiki_summary = (\<lambda>n. Rejected ''Failed to fetch'')\<rparr>"

definition gbif_full :: providers where
  "gbif_full =
     \<lparr>gbif_match = (\<lambda>n. Response True (Some \<lparr>usageKey = Some 2436436\<rparr>)),
      gbif_species = (\<lambda>k. Response True (Some homo_sapiens_json)),
      wiki_summary = (\<lambda>n. Rejected ''Failed to fetch'')\<rparr>"

section \<open>Facts about the cache\<close>

lemma lower_felidae: "toLowerCase ''Felidae'' = ''felidae''"
  by code_simp

lemma start_hit:
  assumes "rankCache st (toLowerCase n) = Some e"
      and "now - (case rankLastFetchTime st (toLowerCase n) of None \<Rightarrow> 0 | Some t \<Rightarrow> t)
             < RANK_FETCH_THROTTLE_MS"
  shows "aggregateRankData_start n now st = (Returned e, st)"
  using assms by (simp add: aggregateRankData_start_def Let_def)

lemma start_Returned:
  assumes "aggregateRankData_start n now st = (Returned e, st')"
  shows "st' = st" and "rankCache st (toLowerCase n) = Some e"
    and "now - (case rankLastFetchTime st (toLowerCase n) of None \<Rightarrow> 0 | Some t \<Rightarrow> t)
           < RANK_FETCH_THROTTLE_MS"
  using assms
  by (auto simp: aggregateRankData_start_def Let_def split: option.splits if_splits)

lemma start_Awaiting:
  assumes "aggregateRankData_start n now st = (Awaiting, st')"
  shows "st' = st\<lparr>rankLastFetchTime := (rankLastFetchTime st)(toLowerCase n \<mapsto> now),
                 network := network st @ [WikiSummary n]\<rparr>"
  using assms
  by (auto simp: aggregateRankData_start_def Let_def split: option.splits if_splits)

section \<open>Claims\<close>

text \<open>
  C10.  When the synchronous part of a get returns the cached entry, the engine is left as it
  was: the cache map, the map of last fetch times and the list of issued requests are
  unchanged, the value returned is the entry stored under the key, and the call as a whole
  resolves with that entry and the same engine.
\<close>

theorem cache_hit_changes_nothing:
  assumes "aggregateRankData_start levelName now st = (Returned e, st')"
  shows "st' = st \<and> rankCache st' = rankCache st \<and> rankLastFetchTime st' = rankLastFetchTime st
         \<and> network st' = network st
         \<and> rankCache st (toLowerCase levelName) = Some e
         \<and> aggregateRankData levelName now res now' st = Inr (e, st)"
proof -
  have same: "st' = st" and stored: "rankCache st (toLowerCase levelName) = Some e"
    using start_Returned [OF assms] by simp_all
  have "aggregateRankData levelName now res now' st = Inr (e, st)"
    using assms same by (simp add: aggregateRankData_def)
  with same stored show ?thesis by simp
qed

theorem cache_hit_changes_nothing_witness:
  "aggregateRankData_start ''Felidae'' 5400 felidae_cached = (Returned felidae_entry, felidae_cached)
   \<and> rankCache felidae_cached (toLowerCase ''Felidae'') = Some felidae_entry
   \<and> aggregateRankData ''Felidae'' 5400 (Rejected ''Failed to fetch'') 5600 felidae_cached
       = Inr (felidae_entry, felidae_cached)"
proof -
  have hit: "aggregateRankData_start ''Felidae'' 5400 felidae_cached
               = (Returned felidae_entry, felidae_cached)"
    by (rule start_hit) (simp_all add: lower_felidae felidae_cached_def RANK_FETCH_THROTTLE_MS_def)
  from cache_hit_changes_nothing [OF hit, of "Rejected ''Failed to fetch''" 5600]
  show ?thesis using hit by simp
qed

section \<open>Facts about the Wikipedia lookup\<close>

lemma fetchWiki_resolves: "\<exists>w. fetchWiki n res = Inr w"
  by (simp add: fetchWiki_def split: sum.splits)

lemma fetchWiki_failed: "wiki_failed res \<Longrightarrow> fetchWiki n res = Inr None"
  by (auto simp: wiki_failed_def fetchWiki_def fetchWiki_try_def
           split: http.splits sum.splits option.splits if_splits)

lemma finish_resolves:
  assumes "fetchWiki n res = Inr w"
  shows "aggregateRankData_finish n res now st =
           Inr (\<lparr>itis = None, gbif = None, wiki = w, combinedSummary = None,
                  fetchedAt = now, error = None\<rparr>,
                st\<lparr>rankCache := (rankCache st)(toLowerCase n \<mapsto>
                    \<lparr>itis = None, gbif = None, wiki = w, combinedSummary = None,
                      fetchedAt = now, error = None\<rparr>)\<rparr>)"
  using assms by (simp add: aggregateRankData_finish_def Let_def)

lemma finish_stores:
  assumes "aggregateRankData_finish n res now st = Inr (e, st')"
  shows "rankCache st' (toLowerCase n) = Some e"
    and "rankLastFetchTime st' = rankLastFetchTime st"
    and "network st' = network st"
    and "error e = None" and "fetchedAt e = now" and "fetchWiki n res = Inr (wiki e)"
proof -
  obtain w where w: "fetchWiki n res = Inr w" using fetchWiki_resolves by blast
  from finish_resolves [OF w, of now st] assms
  show "rankCache st' (toLowerCase n) = Some e"
    and "rankLastFetchTime st' = rankLastFetchTime st"
    and "network st' = network st"
    and "error e = None" and "fetchedAt e = now" and "fetchWiki n res = Inr (wiki e)"
    using w by auto
qed

section \<open>Claims about the throttle and the refresh\<close>

text \<open>
  C3.  For every name, time and engine state, the synchronous part of a refresh ends with a
  request in flight: the entry of the key has been removed from the cache, the last fetch
  time that was recorded for the key has been replaced by the time of this call, and one
  Wikipedia request for the name has been issued.  Run to its end, the refresh resolves with
  the entry built from this request's response, stored under the key.  No condition on the
  state is needed, so the throttle window plays no part.
\<close>

theorem refresh_bypasses_throttle:
  "fst (refreshRank_start levelName now st) = Awaiting
   \<and> rankCache (snd (refreshRank_start levelName now st)) (toLowerCase levelName) = None
   \<and> rankLastFetchTime (snd (refreshRank_start levelName now st)) (toLowerCase levelName) = Some now
   \<and> network (snd (refreshRank_start levelName now st)) = network st @ [WikiSummary levelName]
   \<and> (\<exists>e st'. refreshRank levelName now res now' st = Inr (Some e, st')
         \<and> rankCache st' (toLowerCase levelName) = Some e \<and> fetchedAt e = now'
         \<and> network st' = network st @ [WikiSummary levelName])"
proof -
  let ?key = "toLowerCase levelName"
  let ?st3 = "st\<lparr>rankCache := (rankCache st)(?key := None),
                  rankLastFetchTime := (rankLastFetchTime st)(?key := None),
                  rankLoading := (rankLoading st)(?key \<mapsto> True)\<rparr>"
  let ?st4 = "?st3\<lparr>rankLastFetchTime := (rankLastFetchTime ?st3)(?key \<mapsto> now),
                    network := network ?st3 @ [WikiSummary levelName]\<rparr>"
  have start: "refreshRank_start levelName now st = (Awaiting, ?st4)"
    by (simp add: refreshRank_start_def aggregateRankData_start_def Let_def)
  obtain w where w: "fetchWiki levelName res = Inr w" using fetchWiki_resolves by blast
  have "\<exists>e st'. refreshRank levelName now res now' st = Inr (Some e, st')
         \<and> rankCache st' ?key = Some e \<and> fetchedAt e = now'
         \<and> network st' = network st @ [WikiSummary levelName]"
    by (simp add: refreshRank_def start refreshRank_settle_def finish_resolves [OF w] Let_def)
  with start show ?thesis by simp
qed

theorem refresh_bypasses_throttle_witness:
  "fst (aggregateRankData_start ''Felidae'' 5400 felidae_cached) = Returned felidae_entry
   \<and> fst (refreshRank_start ''Felidae'' 5400 felidae_cached) = Awaiting
   \<and> rankCache (snd (refreshRank_start ''Felidae'' 5400 felidae_cached)) ''felidae'' = None
   \<and> network (snd (refreshRank_start ''Felidae'' 5400 felidae_cached))
       = [WikiSummary ''Felidae'', WikiSummary ''Felidae'']"
proof -
  have hit: "aggregateRankData_start ''Felidae'' 5400 felidae_cached
               = (Returned felidae_entry, felidae_cached)"
    by (rule start_hit) (simp_all add: lower_felidae felidae_cached_def RANK_FETCH_THROTTLE_MS_def)
  have net: "network felidae_cached = [WikiSummary ''Felidae'']"
    by (simp add: felidae_cached_def)
  from refresh_bypasses_throttle [of "''Felidae''" 5400 felidae_cached]
  show ?thesis using hit net by (simp add: lower_felidae)
qed

text \<open>
  C1, as stated, fails: a second get that starts while the first one's request is still in
  flight finds no entry under the key and issues a second request, although it comes 500 ms
  after the first fetch attempt.
\<close>

theorem throttle_in_flight_counterexample:
  "fst (aggregateRankData_start ''Felidae'' 5500
          (snd (aggregateRankData_start ''Felidae'' 5000 engine0))) = Awaiting
   \<and> network (snd (aggregateRankData_start ''Felidae'' 5500
          (snd (aggregateRankData_start ''Felidae'' 5000 engine0))))
       = [WikiSummary ''Felidae'', WikiSummary ''Felidae'']"
  by (simp add: aggregateRankData_start_def engine0_def RANK_FETCH_THROTTLE_MS_def)

text \<open>
  C1, amended.  Take a get that has made a fetch attempt at time \<open>t1\<close>, and a get for the
  same key that starts less than \<open>RANK_FETCH_THROTTLE_MS\<close> after \<open>t1\<close>, in any engine state
  in which \<open>t1\<close> is still the time recorded for the key.  If an entry is stored under the key
  at that moment (the one of the attempt once it has completed, or an older one while the
  attempt is still in flight), the second get returns that entry and leaves the engine
  unchanged, so it issues no request.  If no entry is stored under the key, the second get
  issues its own request.  In particular, once the attempt has completed the second get
  returns the entry the attempt stored, and one request was issued across the two calls.
\<close>

theorem throttle_when_entry_stored:
  assumes "aggregateRankData_start levelName t1 st = (Awaiting, st1)"
      and "toLowerCase levelName' = toLowerCase levelName"
      and "t2 - t1 < RANK_FETCH_THROTTLE_MS"
  shows "rankLastFetchTime st1 (toLowerCase levelName) = Some t1
         \<and> network st1 = network st @ [WikiSummary levelName]
         \<and> (\<forall>st2 e. rankLastFetchTime st2 (toLowerCase levelName) = Some t1
                    \<and> rankCache st2 (toLowerCase levelName) = Some e
               \<longrightarrow> aggregateRankData_start levelName' t2 st2 = (Returned e, st2))
         \<and> (\<forall>st2. rankCache st2 (toLowerCase levelName) = None
               \<longrightarrow> aggregateRankData_start levelName' t2 st2
                     = (Awaiting,
                        st2\<lparr>rankLastFetchTime :=
                              (rankLastFetchTime st2)(toLowerCase levelName \<mapsto> t2),
                            network := network st2 @ [WikiSummary levelName']\<rparr>))
         \<and> (\<forall>res t1' e st3. aggregateRankData_finish levelName res t1' st1 = Inr (e, st3)
               \<longrightarrow> aggregateRankData_start levelName' t2 st3 = (Returned e, st3)
                   \<and> network st3 = network st @ [WikiSummary levelName])"
proof -
  have st1: "st1 = st\<lparr>rankLastFetchTime := (rankLastFetchTime st)(toLowerCase levelName \<mapsto> t1),
                      network := network st @ [WikiSummary levelName]\<rparr>"
    using start_Awaiting [OF assms(1)] .
  have last1: "rankLastFetchTime st1 (toLowerCase levelName) = Some t1"
    by (subst st1) simp
  have net1: "network st1 = network st @ [WikiSummary levelName]"
    by (subst st1) simp
  have hit: "aggregateRankData_start levelName' t2 st2 = (Returned e, st2)"
    if "rankLastFetchTime st2 (toLowerCase levelName) = Some t1"
       "rankCache st2 (toLowerCase levelName) = Some e" for st2 e
    by (rule start_hit) (simp_all add: that assms(2) assms(3))
  have miss: "aggregateRankData_start levelName' t2 st2
                = (Awaiting,
                   st2\<lparr>rankLastFetchTime :=
                         (rankLastFetchTime st2)(toLowerCase levelName \<mapsto> t2),
                       network := network st2 @ [WikiSummary levelName']\<rparr>)"
    if "rankCache st2 (toLowerCase levelName) = None" for st2
    using that by (simp add: aggregateRankData_start_def Let_def assms(2))
  have completed: "aggregateRankData_start levelName' t2 st3 = (Returned e, st3)
                \<and> network st3 = network st @ [WikiSummary levelName]"
    if fin: "aggregateRankData_finish levelName res t1' st1 = Inr (e, st3)" for res t1' e st3
  proof -
    have "rankCache st3 (toLowerCase levelName) = Some e"
      using finish_stores(1) [OF fin] .
    moreover have "rankLastFetchTime st3 (toLowerCase levelName) = Some t1"
      using finish_stores(2) [OF fin] last1 by simp
    moreover have "network st3 = network st @ [WikiSummary levelName]"
      using finish_stores(3) [OF fin] net1 by simp
    ultimately show ?thesis using hit by blast
  qed
  from last1 net1 hit miss completed show ?thesis by blast
qed

theorem throttle_when_entry_stored_witness:
  "aggregateRankData_start ''Felidae'' 7000 felidae_cached
     = (Awaiting, snd (aggregateRankData_start ''Felidae'' 7000 felidae_cached))
   \<and> aggregateRankData_start ''felidae'' 7500
        (snd (aggregateRankData_start ''Felidae'' 7000 felidae_cached))
     = (Returned felidae_entry, snd (aggregateRankData_start ''Felidae'' 7000 felidae_cached))
   \<and> fst (aggregateRankData_start ''felidae'' 5500
             (snd (aggregateRankData_start ''Felidae'' 5000 engine0))) = Awaiting
   \<and> (\<exists>e st3. aggregateRankData_finish ''Felidae'' (Response True (Some felidae_json)) 5200
                  (snd (aggregateRankData_start ''Felidae'' 5000 engine0)) = Inr (e, st3)
          \<and> aggregateRankData_start ''felidae'' 5500 st3 = (Returned e, st3)
          \<and> network st3 = [WikiSummary ''Felidae''])"
proof -
  let ?s1 = "snd (aggregateRankData_start ''Felidae'' 7000 felidae_cached)"
  let ?r1 = "snd (aggregateRankData_start ''Felidae'' 5000 engine0)"
  have c: "toLowerCase ''felidae'' = toLowerCase ''Felidae''"
    by code_simp
  have a: "aggregateRankData_start ''Felidae'' 7000 felidae_cached = (Awaiting, ?s1)"
    by (simp add: aggregateRankData_start_def lower_felidae felidae_cached_def
                  RANK_FETCH_THROTTLE_MS_def Let_def)
  have d: "(7500::int) - 7000 < RANK_FETCH_THROTTLE_MS"
    by (simp add: RANK_FETCH_THROTTLE_MS_def)
  have stale: "rankCache ?s1 (toLowerCase ''Felidae'') = Some felidae_entry"
    by (simp add: aggregateRankData_start_def lower_felidae felidae_cached_def
                  RANK_FETCH_THROTTLE_MS_def Let_def)
  from throttle_when_entry_stored [OF a c d] stale
  have one: "aggregateRankData_start ''felidae'' 7500 ?s1 = (Returned felidae_entry, ?s1)"
    by blast
  have a': "aggregateRankData_start ''Felidae'' 5000 engine0 = (Awaiting, ?r1)"
    by (simp add: aggregateRankData_start_def engine0_def RANK_FETCH_THROTTLE_MS_def)
  have d': "(5500::int) - 5000 < RANK_FETCH_THROTTLE_MS"
    by (simp add: RANK_FETCH_THROTTLE_MS_def)
  have none: "rankCache ?r1 (toLowerCase ''Felidae'') = None"
    by (simp add: aggregateRankData_start_def engine0_def RANK_FETCH_THROTTLE_MS_def)
  have n0: "network engine0 = []"
    by (simp add: engine0_def)
  from throttle_when_entry_stored [OF a' c d'] none
  have two: "fst (aggregateRankData_start ''felidae'' 5500 ?r1) = Awaiting"
    by simp
  obtain e st3 where fin:
    "aggregateRankData_finish ''Felidae'' (Response True (Some felidae_json)) 5200 ?r1
       = Inr (e, st3)"
    using fetchWiki_resolves finish_resolves by blast
  from throttle_when_entry_stored [OF a' c d'] fin n0
  have three: "aggregateRankData_start ''felidae'' 5500 st3 = (Returned e, st3)
               \<and> network st3 = [WikiSummary ''Felidae'']"
    by auto
  from a one two fin three show ?thesis by blast
qed

section \<open>Claims about failures\<close>

text \<open>
  C5, as stated, fails: when the only adapter that is invoked fails (here the request is
  rejected), the entry that is built and cached has no error.
\<close>

theorem failed_lookup_counterexample:
  "map_sum id fst (aggregateRankData ''Felidae'' 5000 (Rejected ''Failed to fetch'') 5300 engine0)
     = Inr \<lparr>itis = None, gbif = None, wiki = None, combinedSummary = None,
             fetchedAt = 5300, error = None\<rparr>"
  by (simp add: aggregateRankData_def aggregateRankData_finish_def fetchWiki_def
                fetchWiki_try_def aggregateRankData_start_def engine0_def
                RANK_FETCH_THROTTLE_MS_def Let_def)

text \<open>
  C5, amended.  When the Wikipedia lookup of a fetch attempt fails, the attempt resolves
  with an entry in which every per-provider field is absent and the error is absent too;
  this entry is stored under the key, and a get for the key that starts less than
  \<open>RANK_FETCH_THROTTLE_MS\<close> after the attempt returns this same entry without a request.
\<close>

theorem failed_lookup_is_cached:
  assumes "wiki_failed res"
      and "aggregateRankData_start levelName t1 st = (Awaiting, st1)"
      and "t2 - t1 < RANK_FETCH_THROTTLE_MS"
  shows "\<exists>st2. aggregateRankData_finish levelName res t1' st1
                 = Inr (\<lparr>itis = None, gbif = None, wiki = None, combinedSummary = None,
                         fetchedAt = t1', error = None\<rparr>, st2)
           \<and> rankCache st2 (toLowerCase levelName)
                 = Some \<lparr>itis = None, gbif = None, wiki = None, combinedSummary = None,
                         fetchedAt = t1', error = None\<rparr>
           \<and> aggregateRankData_start levelName t2 st2
                 = (Returned \<lparr>itis = None, gbif = None, wiki = None, combinedSummary = None,
                              fetchedAt = t1', error = None\<rparr>, st2)
           \<and> network st2 = network st @ [WikiSummary levelName]"
proof -
  let ?e = "\<lparr>itis = None, gbif = None, wiki = None, combinedSummary = None,
             fetchedAt = t1', error = None\<rparr>"
  let ?st2 = "st1\<lparr>rankCache := (rankCache st1)(toLowerCase levelName \<mapsto> ?e)\<rparr>"
  have fin: "aggregateRankData_finish levelName res t1' st1 = Inr (?e, ?st2)"
    using finish_resolves [OF fetchWiki_failed [OF assms(1)]] .
  have st1: "st1 = st\<lparr>rankLastFetchTime := (rankLastFetchTime st)(toLowerCase levelName \<mapsto> t1),
                      network := network st @ [WikiSummary levelName]\<rparr>"
    using start_Awaiting [OF assms(2)] .
  have last: "rankLastFetchTime st1 (toLowerCase levelName) = Some t1"
    by (subst st1) simp
  have hit: "aggregateRankData_start levelName t2 ?st2 = (Returned ?e, ?st2)"
    by (rule start_hit) (simp_all add: last assms(3))
  have net: "network ?st2 = network st @ [WikiSummary levelName]"
    by (subst st1) simp
  have sto: "rankCache ?st2 (toLowerCase levelName) = Some ?e"
    by simp
  show ?thesis using fin sto hit net by blast
qed

theorem failed_lookup_is_cached_witness:
  "wiki_failed (Response False None :: wiki_json http)
   \<and> (\<exists>st2. aggregateRankData_finish ''Felidae'' (Response False None) 5300
                (snd (aggregateRankData_start ''Felidae'' 5000 engine0))
              = Inr (\<lparr>itis = None, gbif = None, wiki = None, combinedSummary = None,
                      fetchedAt = 5300, error = None\<rparr>, st2)
          \<and> aggregateRankData_start ''Felidae'' 5999 st2
              = (Returned \<lparr>itis = None, gbif = None, wiki = None, combinedSummary = None,
                           fetchedAt = 5300, error = None\<rparr>, st2)
          \<and> network st2 = [WikiSummary ''Felidae''])"
proof -
  let ?st1 = "snd (aggregateRankData_start ''Felidae'' 5000 engine0)"
  have f: "wiki_failed (Response False None :: wiki_json http)"
    by (simp add: wiki_failed_def)
  have a: "aggregateRankData_start ''Felidae'' 5000 engine0 = (Awaiting, ?st1)"
    by (simp add: aggregateRankData_start_def engine0_def RANK_FETCH_THROTTLE_MS_def)
  have d: "(5999::int) - 5000 < RANK_FETCH_THROTTLE_MS"
    by (simp add: RANK_FETCH_THROTTLE_MS_def)
  have n: "network engine0 = []"
    by (simp add: engine0_def)
  from failed_lookup_is_cached [OF f a d, of 5300]
  show ?thesis using f n by auto
qed

text \<open>
  C6.  For every name, response, pair of times and engine state, a get and a refresh that
  run to their end resolve with a cache entry and never reject; so does the part of a get
  that runs after the response, from any state.  The refresh's entry is the one stored
  under the key, and when the Wikipedia lookup failed its \<open>wiki\<close> field is absent.
\<close>

theorem get_and_refresh_never_throw:
  "(\<exists>e st'. aggregateRankData levelName now res now' st = Inr (e, st'))
   \<and> (\<exists>e st'. aggregateRankData_finish levelName res now' st = Inr (e, st')
          \<and> rankCache st' (toLowerCase levelName) = Some e
          \<and> (wiki_failed res \<longrightarrow> wiki e = None))
   \<and> (\<exists>e st'. refreshRank levelName now res now' st = Inr (Some e, st')
          \<and> rankCache st' (toLowerCase levelName) = Some e
          \<and> (wiki_failed res \<longrightarrow> wiki e = None))"
proof -
  obtain w where w: "fetchWiki levelName res = Inr w" using fetchWiki_resolves by blast
  have wn: "wiki_failed res \<longrightarrow> w = None"
    using fetchWiki_failed [of res levelName] w by auto
  have fin: "\<And>s. \<exists>e st'. aggregateRankData_finish levelName res now' s = Inr (e, st')
          \<and> rankCache st' (toLowerCase levelName) = Some e
          \<and> (wiki_failed res \<longrightarrow> wiki e = None)"
    using wn by (simp add: finish_resolves [OF w])
  have get: "\<exists>e st'. aggregateRankData levelName now res now' st = Inr (e, st')"
  proof (cases "aggregateRankData_start levelName now st")
    case (Pair r s)
    show ?thesis
    proof (cases r)
      case (Returned c)
      with Pair show ?thesis by (simp add: aggregateRankData_def)
    next
      case Awaiting
      with Pair fin [of s] show ?thesis by (auto simp: aggregateRankData_def)
    qed
  qed
  have start: "fst (refreshRank_start levelName now st) = Awaiting"
    by (simp add: refreshRank_start_def aggregateRankData_start_def Let_def)
  have refresh: "\<exists>e st'. refreshRank levelName now res now' st = Inr (Some e, st')
          \<and> rankCache st' (toLowerCase levelName) = Some e
          \<and> (wiki_failed res \<longrightarrow> wiki e = None)"
  proof (cases "refreshRank_start levelName now st")
    case (Pair r s)
    with start have r: "r = Awaiting" by simp
    show ?thesis
      using wn by (simp add: refreshRank_def Pair r refreshRank_settle_def
                             finish_resolves [OF w] Let_def)
  qed
  from get fin [of st] refresh show ?thesis by blast
qed

theorem get_and_refresh_never_throw_witness:
  "wiki_failed (Rejected ''The operation was aborted.'' :: wiki_json http)
   \<and> (\<exists>e st'. aggregateRankData ''Felidae'' 7000 (Rejected ''The operation was aborted.'') 13000
                 felidae_cached = Inr (e, st'))
   \<and> (\<exists>e st'. refreshRank ''Felidae'' 7000 (Rejected ''The operation was aborted.'') 13000
                 felidae_cached = Inr (Some e, st')
          \<and> rankCache st' ''felidae'' = Some e \<and> wiki e = None)"
proof -
  have f: "wiki_failed (Rejected ''The operation was aborted.'' :: wiki_json http)"
    by (simp add: wiki_failed_def)
  from get_and_refresh_never_throw
         [of "''Felidae''" 7000 "Rejected ''The operation was aborted.''" 13000 felidae_cached]
  show ?thesis using f by (simp add: lower_felidae)
qed

section \<open>Claims about the query key\<close>

lemma toLowerChar_upper_not_upper:
  assumes "isUpperCase c"
  shows "\<not> isUpperCase (toLowerChar c)"
proof -
  let ?n = "of_char c :: nat"
  from assms have bound: "?n + 32 < 256"
    by (auto simp: isUpperCase_def Let_def)
  have "of_char (toLowerChar c) = ((?n + 32) mod 256 :: nat)"
    using assms by (simp add: toLowerChar_def)
  with bound have "of_char (toLowerChar c) = ?n + 32" by simp
  with assms show ?thesis
    by (auto simp: isUpperCase_def Let_def)
qed

lemma toLowerChar_idem: "toLowerChar (toLowerChar c) = toLowerChar c"
proof (cases "isUpperCase c")
  case True
  from toLowerChar_upper_not_upper [OF True] show ?thesis
    by (simp add: toLowerChar_def [of "toLowerChar c"])
next
  case False
  then show ?thesis by (simp add: toLowerChar_def)
qed

lemma case_pair_lower:
  assumes "case_pair u l"
  shows "toLowerChar u = l" and "toLowerChar l = l"
proof -
  let ?a = "of_char u :: nat" and ?b = "of_char l :: nat"
  from assms have b: "?b = ?a + 32"
    and r: "(65 \<le> ?a \<and> ?a \<le> 90) \<or> (192 \<le> ?a \<and> ?a \<le> 214) \<or> (216 \<le> ?a \<and> ?a \<le> 222)"
    by (auto simp: case_pair_def Let_def split: if_splits)
  from r have up: "isUpperCase u"
    by (auto simp: isUpperCase_def Let_def)
  have "char_of ?b = l" by simp
  with b have "char_of (?a + 32) = l" by simp
  with up show "toLowerChar u = l"
    by (simp add: toLowerChar_def)
  from b r have "\<not> isUpperCase l"
    by (auto simp: isUpperCase_def Let_def)
  then show "toLowerChar l = l"
    by (simp add: toLowerChar_def)
qed

lemma same_letter_lower: "same_letter c d \<Longrightarrow> toLowerChar c = toLowerChar d"
  by (auto simp: same_letter_def case_pair_lower split: if_splits)

lemma differ_only_in_case_lower:
  "differ_only_in_case a b \<Longrightarrow> toLowerCase a = toLowerCase b"
  unfolding differ_only_in_case_def toLowerCase_def
  by (induction a b rule: list_all2_induct) (simp_all add: same_letter_lower)

text \<open>
  C2, as stated, fails: the two inputs below differ only in a trailing blank, yet the key
  that \<^verbatim>\<open>aggregateRankData\<close> computes for them differs, and after a completed get for the
  first a get for the second 100 ms later issues a second request.
\<close>

theorem whitespace_variant_counterexample:
  "trim ''Felidae '' = trim ''Felidae''
   \<and> toLowerCase ''Felidae '' \<noteq> toLowerCase ''Felidae''
   \<and> fst (aggregateRankData_start ''Felidae'' 5100 felidae_cached) = Returned felidae_entry
   \<and> fst (aggregateRankData_start ''Felidae '' 5100 felidae_cached) = Awaiting
   \<and> network (snd (aggregateRankData_start ''Felidae '' 5100 felidae_cached))
       = [WikiSummary ''Felidae'', WikiSummary ''Felidae '']"
proof -
  have t: "trim ''Felidae '' = trim ''Felidae''" by code_simp
  have k: "toLowerCase ''Felidae '' = ''felidae ''" by code_simp
  have hit: "aggregateRankData_start ''Felidae'' 5100 felidae_cached
               = (Returned felidae_entry, felidae_cached)"
    by (rule start_hit) (simp_all add: lower_felidae felidae_cached_def RANK_FETCH_THROTTLE_MS_def)
  have miss: "aggregateRankData_start ''Felidae '' 5100 felidae_cached
               = (Awaiting, felidae_cached
                    \<lparr>rankLastFetchTime := (rankLastFetchTime felidae_cached)(''felidae '' \<mapsto> 5100),
                     network := network felidae_cached @ [WikiSummary ''Felidae '']\<rparr>)"
    by (simp add: aggregateRankData_start_def k felidae_cached_def Let_def)
  show ?thesis
    using t hit by (simp add: miss k lower_felidae) (simp add: felidae_cached_def)
qed

text \<open>
  C2, amended.  The key is the lower-cased input, not trimmed.  For inputs made of code
  points below 256, where lower-casing works character by character: two inputs that differ
  only in letter casing have the same key, and from any engine state and at any time a get
  for either has the same outcome (the same cached entry, or a new request) and leaves the
  same cache map and the same map of last fetch times.
\<close>

theorem case_variants_share_key:
  assumes "differ_only_in_case a b"
  shows "toLowerCase a = toLowerCase b
         \<and> fst (aggregateRankData_start a now st) = fst (aggregateRankData_start b now st)
         \<and> rankCache (snd (aggregateRankData_start a now st))
             = rankCache (snd (aggregateRankData_start b now st))
         \<and> rankLastFetchTime (snd (aggregateRankData_start a now st))
             = rankLastFetchTime (snd (aggregateRankData_start b now st))"
proof -
  have k: "toLowerCase a = toLowerCase b"
    using differ_only_in_case_lower [OF assms] .
  show ?thesis
    by (simp add: k aggregateRankData_start_def Let_def split: option.splits)
qed

theorem case_variants_share_key_witness:
  "differ_only_in_case ''FELIDAE'' ''Felidae''
   \<and> toLowerCase ''FELIDAE'' = toLowerCase ''Felidae''
   \<and> fst (aggregateRankData_start ''FELIDAE'' 5100 felidae_cached) = Returned felidae_entry"
proof -
  have d: "differ_only_in_case ''FELIDAE'' ''Felidae''" by code_simp
  have hit: "aggregateRankData_start ''Felidae'' 5100 felidae_cached
               = (Returned felidae_entry, felidae_cached)"
    by (rule start_hit) (simp_all add: lower_felidae felidae_cached_def RANK_FETCH_THROTTLE_MS_def)
  from case_variants_share_key [OF d, of 5100 felidae_cached]
  show ?thesis using d hit by simp
qed

section \<open>Claims about the taxonomy lookup\<close>

lemma all_levels_ranks: "map rank (all_levels sj n) = RANKS"
  by (simp add: all_levels_def RANKS_def)

lemma or_else_populated: "populated x \<Longrightarrow> or_else x d = the x"
  by (cases x) (simp_all add: populated_def or_else_def)

lemma populated_the: "populated x \<Longrightarrow> the x \<noteq> []"
  by (cases x) (simp_all add: populated_def)

lemma or_else_not_populated: "\<not> populated x \<Longrightarrow> or_else x d = d"
  by (cases x) (simp_all add: populated_def or_else_def)

lemma or_else_nil: "or_else x [] = resolved_name x"
  by (cases x) (simp_all add: or_else_def resolved_name_def)

lemma or_else_species:
  "or_else x n = (if populated x then the x else n)"
  by (simp add: or_else_populated or_else_not_populated)

lemma all_levels_pairs:
  "map (\<lambda>l. (rank l, name l)) (all_levels sj n)
     = [(''Kingdom'', resolved_name (sj_kingdom sj)), (''Phylum'', resolved_name (sj_phylum sj)),
        (''Class'', resolved_name (sj_class sj)), (''Order'', resolved_name (sj_order sj)),
        (''Family'', resolved_name (sj_family sj)), (''Genus'', resolved_name (sj_genus sj)),
        (''Species'', if populated (sj_species sj) then the (sj_species sj) else n)]"
  by (simp add: all_levels_def or_else_nil or_else_species [of "sj_species sj" n])

lemma build_hierarchy_pairs:
  "map (\<lambda>l. (rank l, name l)) (build_hierarchy sj n)
     = filter (\<lambda>p. snd p \<noteq> [])
         [(''Kingdom'', resolved_name (sj_kingdom sj)), (''Phylum'', resolved_name (sj_phylum sj)),
          (''Class'', resolved_name (sj_class sj)), (''Order'', resolved_name (sj_order sj)),
          (''Family'', resolved_name (sj_family sj)), (''Genus'', resolved_name (sj_genus sj)),
          (''Species'', if populated (sj_species sj) then the (sj_species sj) else n)]"
proof -
  have "map (\<lambda>l. (rank l, name l)) (build_hierarchy sj n)
          = filter (\<lambda>p. snd p \<noteq> []) (map (\<lambda>l. (rank l, name l)) (all_levels sj n))"
    by (simp add: build_hierarchy_def filter_map o_def)
  then show ?thesis by (simp only: all_levels_pairs)
qed

lemma build_hierarchy_ranks: "subseq (map rank (build_hierarchy sj n)) RANKS"
proof -
  have "subseq (build_hierarchy sj n) (all_levels sj n)"
    by (simp add: build_hierarchy_def)
  then have "subseq (map rank (build_hierarchy sj n)) (map rank (all_levels sj n))"
    by (rule subseq_map)
  then show ?thesis by (simp add: all_levels_ranks)
qed

lemma build_hierarchy_full:
  assumes "populated (sj_kingdom sj)" "populated (sj_phylum sj)" "populated (sj_class sj)"
    "populated (sj_order sj)" "populated (sj_family sj)" "populated (sj_genus sj)"
    "populated (sj_species sj)"
  shows "length (build_hierarchy sj n) = 7"
    and "map rank (build_hierarchy sj n) = RANKS"
    and "map name (build_hierarchy sj n)
           = [the (sj_kingdom sj), the (sj_phylum sj), the (sj_class sj), the (sj_order sj),
              the (sj_family sj), the (sj_genus sj), the (sj_species sj)]"
  using assms
  by (simp_all add: build_hierarchy_def all_levels_def RANKS_def or_else_populated populated_the)

lemma lookup_result:
  assumes "snd (generateTaxonomyHierarchy env n) = Inr td"
  shows "\<exists>ok matchJson key ok' speciesJson.
           gbif_match env n = Response ok (Some matchJson)
           \<and> truthy_key (usageKey matchJson) = Some key
           \<and> gbif_species env key = Response ok' (Some speciesJson)
           \<and> hierarchy td = build_hierarchy speciesJson n"
  using assms
  by (auto simp: generateTaxonomyHierarchy_def split: http.splits option.splits)

text \<open>
  C7.  Every taxonomy that the lookup \<^verbatim>\<open>generateTaxonomyHierarchy\<close> returns for a name was
  built from the classification record of the usage key that the match request gave, and
  its hierarchy is determined by that record: its ranks and names are, in this order,
  Kingdom, Phylum, Class, Order, Family, Genus and Species with the record's field of that
  rank (for Species the queried name when the field is absent or empty), without the levels
  whose name is empty.  So the ranks form a subsequence of the seven ranks in order, no name
  in the hierarchy is empty, and when all seven fields are present and not empty the
  hierarchy has exactly seven entries, with the seven ranks in order and the record's names.
\<close>

theorem hierarchy_order:
  assumes "snd (generateTaxonomyHierarchy env n) = Inr td"
  shows "\<exists>ok matchJson key ok' sj.
           gbif_match env n = Response ok (Some matchJson)
           \<and> truthy_key (usageKey matchJson) = Some key
           \<and> gbif_species env key = Response ok' (Some sj)
           \<and> map (\<lambda>l. (rank l, name l)) (hierarchy td)
               = filter (\<lambda>p. snd p \<noteq> [])
                   [(''Kingdom'', resolved_name (sj_kingdom sj)),
                    (''Phylum'', resolved_name (sj_phylum sj)),
                    (''Class'', resolved_name (sj_class sj)),
                    (''Order'', resolved_name (sj_order sj)),
                    (''Family'', resolved_name (sj_family sj)),
                    (''Genus'', resolved_name (sj_genus sj)),
                    (''Species'', if populated (sj_species sj) then the (sj_species sj) else n)]
           \<and> subseq (map rank (hierarchy td))
                 [''Kingdom'', ''Phylum'', ''Class'', ''Order'', ''Family'', ''Genus'', ''Species'']
           \<and> (\<forall>l \<in> set (hierarchy td). name l \<noteq> [])
           \<and> (populated (sj_kingdom sj) \<and> populated (sj_phylum sj) \<and> populated (sj_class sj)
                \<and> populated (sj_order sj) \<and> populated (sj_family sj)
                \<and> populated (sj_genus sj) \<and> populated (sj_species sj)
               \<longrightarrow> length (hierarchy td) = 7
                   \<and> map rank (hierarchy td)
                       = [''Kingdom'', ''Phylum'', ''Class'', ''Order'', ''Family'', ''Genus'',
                          ''Species'']
                   \<and> map name (hierarchy td)
                       = [the (sj_kingdom sj), the (sj_phylum sj), the (sj_class sj),
                          the (sj_order sj), the (sj_family sj), the (sj_genus sj),
                          the (sj_species sj)])"
proof -
  from lookup_result [OF assms] obtain ok matchJson key ok' sj where
    m: "gbif_match env n = Response ok (Some matchJson)"
    and k: "truthy_key (usageKey matchJson) = Some key"
    and s: "gbif_species env key = Response ok' (Some sj)"
    and h: "hierarchy td = build_hierarchy sj n"
    by blast
  have pairs: "map (\<lambda>l. (rank l, name l)) (hierarchy td)
               = filter (\<lambda>p. snd p \<noteq> [])
                   [(''Kingdom'', resolved_name (sj_kingdom sj)),
                    (''Phylum'', resolved_name (sj_phylum sj)),
                    (''Class'', resolved_name (sj_class sj)),
                    (''Order'', resolved_name (sj_order sj)),
                    (''Family'', resolved_name (sj_family sj)),
                    (''Genus'', resolved_name (sj_genus sj)),
                    (''Species'', if populated (sj_species sj) then the (sj_species sj) else n)]"
    unfolding h by (rule build_hierarchy_pairs)
  have ranks: "subseq (map rank (hierarchy td))
                 [''Kingdom'', ''Phylum'', ''Class'', ''Order'', ''Family'', ''Genus'', ''Species'']"
    using build_hierarchy_ranks [of sj n] by (simp add: h RANKS_def)
  have names: "\<forall>l \<in> set (hierarchy td). name l \<noteq> []"
    by (simp add: h build_hierarchy_def)
  have full: "populated (sj_kingdom sj) \<and> populated (sj_phylum sj) \<and> populated (sj_class sj)
                \<and> populated (sj_order sj) \<and> populated (sj_family sj)
                \<and> populated (sj_genus sj) \<and> populated (sj_species sj)
               \<longrightarrow> length (hierarchy td) = 7
                   \<and> map rank (hierarchy td)
                       = [''Kingdom'', ''Phylum'', ''Class'', ''Order'', ''Family'', ''Genus'',
                          ''Species'']
                   \<and> map name (hierarchy td)
                       = [the (sj_kingdom sj), the (sj_phylum sj), the (sj_class sj),
                          the (sj_order sj), the (sj_family sj), the (sj_genus sj),
                          the (sj_species sj)]"
    using build_hierarchy_full [of sj n] by (simp add: h RANKS_def)
  show ?thesis
    apply (rule exI [of _ ok], rule exI [of _ matchJson], rule exI [of _ key])
    apply (rule exI [of _ ok'], rule exI [of _ sj])
    apply (intro conjI)
    apply (rule m, rule k, rule s, rule pairs, rule ranks, rule names, rule full)
    done
qed

theorem hierarchy_order_witness:
  "(\<exists>td. snd (generateTaxonomyHierarchy gbif_full ''Homo sapiens'') = Inr td
         \<and> length (hierarchy td) = 7
         \<and> map rank (hierarchy td)
             = [''Kingdom'', ''Phylum'', ''Class'', ''Order'', ''Family'', ''Genus'', ''Species'']
         \<and> map name (hierarchy td)
             = [''Animalia'', ''Chordata'', ''Mammalia'', ''Primates'', ''Hominidae'', ''Homo'',
                ''Homo sapiens''])
   \<and> (\<exists>td. snd (generateTaxonomyHierarchy gbif_ok ''Homo sapiens'') = Inr td
         \<and> map (\<lambda>l. (rank l, name l)) (hierarchy td)
             = [(''Kingdom'', ''Animalia''), (''Order'', ''Primates''), (''Genus'', ''Homo''),
                (''Species'', ''Homo sapiens'')])"
proof -
  obtain td where full: "snd (generateTaxonomyHierarchy gbif_full ''Homo sapiens'') = Inr td"
    by (simp add: generateTaxonomyHierarchy_def gbif_full_def truthy_key_def)
  from hierarchy_order [OF full] obtain ok' key sj where
    s: "gbif_species gbif_full key = Response ok' (Some sj)"
    and f: "populated (sj_kingdom sj) \<and> populated (sj_phylum sj) \<and> populated (sj_class sj)
                \<and> populated (sj_order sj) \<and> populated (sj_family sj)
                \<and> populated (sj_genus sj) \<and> populated (sj_species sj)
               \<longrightarrow> length (hierarchy td) = 7
                   \<and> map rank (hierarchy td)
                       = [''Kingdom'', ''Phylum'', ''Class'', ''Order'', ''Family'', ''Genus'',
                          ''Species'']
                   \<and> map name (hierarchy td)
                       = [the (sj_kingdom sj), the (sj_phylum sj), the (sj_class sj),
                          the (sj_order sj), the (sj_family sj), the (sj_genus sj),
                          the (sj_species sj)]"
    apply (elim exE conjE)
    apply (rule that, assumption+)
    done
  from s have sj: "sj = homo_sapiens_json"
    by (simp add: gbif_full_def)
  from f have one: "length (hierarchy td) = 7
         \<and> map rank (hierarchy td)
             = [''Kingdom'', ''Phylum'', ''Class'', ''Order'', ''Family'', ''Genus'', ''Species'']
         \<and> map name (hierarchy td)
             = [''Animalia'', ''Chordata'', ''Mammalia'', ''Primates'', ''Hominidae'', ''Homo'',
                ''Homo sapiens'']"
    by (simp add: sj homo_sapiens_json_def populated_def)
  obtain td' where part: "snd (generateTaxonomyHierarchy gbif_ok ''Homo sapiens'') = Inr td'"
    by (simp add: generateTaxonomyHierarchy_def gbif_ok_def truthy_key_def)
  from hierarchy_order [OF part] obtain ok'' key' sj' where
    s': "gbif_species gbif_ok key' = Response ok'' (Some sj')"
    and p: "map (\<lambda>l. (rank l, name l)) (hierarchy td')
               = filter (\<lambda>p. snd p \<noteq> [])
                   [(''Kingdom'', resolved_name (sj_kingdom sj')),
                    (''Phylum'', resolved_name (sj_phylum sj')),
                    (''Class'', resolved_name (sj_class sj')),
                    (''Order'', resolved_name (sj_order sj')),
                    (''Family'', resolved_name (sj_family sj')),
                    (''Genus'', resolved_name (sj_genus sj')),
                    (''Species'', if populated (sj_species sj') then the (sj_species sj')
                                  else ''Homo sapiens'')]"
    apply (elim exE conjE)
    apply (rule that, assumption+)
    done
  from s' have sj': "sj' = genus_only_json"
    by (simp add: gbif_ok_def)
  from p have two: "map (\<lambda>l. (rank l, name l)) (hierarchy td')
             = [(''Kingdom'', ''Animalia''), (''Order'', ''Primates''), (''Genus'', ''Homo''),
                (''Species'', ''Homo sapiens'')]"
    by (simp add: sj' genus_only_json_def resolved_name_def populated_def)
  have first: "\<exists>td. snd (generateTaxonomyHierarchy gbif_full ''Homo sapiens'') = Inr td
         \<and> length (hierarchy td) = 7
         \<and> map rank (hierarchy td)
             = [''Kingdom'', ''Phylum'', ''Class'', ''Order'', ''Family'', ''Genus'', ''Species'']
         \<and> map name (hierarchy td)
             = [''Animalia'', ''Chordata'', ''Mammalia'', ''Primates'', ''Hominidae'', ''Homo'',
                ''Homo sapiens'']"
    by (rule exI [of _ td]) (rule conjI [OF full one])
  have second: "\<exists>td. snd (generateTaxonomyHierarchy gbif_ok ''Homo sapiens'') = Inr td
         \<and> map (\<lambda>l. (rank l, name l)) (hierarchy td)
             = [(''Kingdom'', ''Animalia''), (''Order'', ''Primates''), (''Genus'', ''Homo''),
                (''Species'', ''Homo sapiens'')]"
    by (rule exI [of _ td']) (rule conjI [OF part two])
  show ?thesis by (rule conjI [OF first second])
qed

text \<open>
  C8.  The lookup first asks the match endpoint.  It rejects with the error
  ``No taxonomy found'' exactly when that request is answered with a body whose usage key
  is missing (or zero, which the test treats alike); in that case the match request is the
  only request issued.  When the body carries a usage key, the second request issued is
  the one for the classification record of that key.
\<close>

theorem not_found_iff_no_usage_key:
  "(snd (generateTaxonomyHierarchy env n) = Inl NotFoundError
      \<longleftrightarrow> (\<exists>ok matchJson. gbif_match env n = Response ok (Some matchJson)
                           \<and> truthy_key (usageKey matchJson) = None))
   \<and> (snd (generateTaxonomyHierarchy env n) = Inl NotFoundError
      \<longrightarrow> fst (generateTaxonomyHierarchy env n) = [GbifMatch n])
   \<and> (\<forall>ok matchJson key. gbif_match env n = Response ok (Some matchJson)
                           \<and> truthy_key (usageKey matchJson) = Some key
      \<longrightarrow> take 2 (fst (generateTaxonomyHierarchy env n)) = [GbifMatch n, GbifSpecies key])"
  by (auto simp: generateTaxonomyHierarchy_def NotFoundError_def
           split: http.splits option.splits)

theorem not_found_iff_no_usage_key_witness:
  "generateTaxonomyHierarchy gbif_no_match ''Homo sapiens''
     = ([GbifMatch ''Homo sapiens''], Inl NotFoundError)
   \<and> take 2 (fst (generateTaxonomyHierarchy gbif_ok ''Homo sapiens''))
     = [GbifMatch ''Homo sapiens'', GbifSpecies 2436436]"
proof -
  have a: "gbif_match gbif_no_match ''Homo sapiens'' = Response True (Some \<lparr>usageKey = None\<rparr>)"
    by (simp add: gbif_no_match_def)
  have b: "truthy_key (usageKey \<lparr>usageKey = None\<rparr>) = None"
    by (simp add: truthy_key_def)
  have c: "gbif_match gbif_ok ''Homo sapiens'' = Response True (Some \<lparr>usageKey = Some 2436436\<rparr>)"
    by (simp add: gbif_ok_def)
  have d: "truthy_key (usageKey \<lparr>usageKey = Some 2436436\<rparr>) = Some 2436436"
    by (simp add: truthy_key_def)
  from not_found_iff_no_usage_key [of gbif_no_match "''Homo sapiens''"] a b
  have e: "snd (generateTaxonomyHierarchy gbif_no_match ''Homo sapiens'') = Inl NotFoundError"
    and f: "fst (generateTaxonomyHierarchy gbif_no_match ''Homo sapiens'')
              = [GbifMatch ''Homo sapiens'']"
    by blast+
  from not_found_iff_no_usage_key [of gbif_ok "''Homo sapiens''"] c d
  have g: "take 2 (fst (generateTaxonomyHierarchy gbif_ok ''Homo sapiens''))
             = [GbifMatch ''Homo sapiens'', GbifSpecies 2436436]"
    by blast
  from e f g show ?thesis by (simp add: prod_eq_iff)
qed

lemma trim_nonempty: "trim n \<noteq> [] \<Longrightarrow> n \<noteq> []"
  by (auto simp: trim_def)

lemma generateTaxonomy_taxonomyData:
  "taxonomyData (generateTaxonomy env n pg) =
     (case generateTaxonomy_outcome env n of Generated td \<Rightarrow> Some td | _ \<Rightarrow> taxonomyData pg)"
  by (auto simp: generateTaxonomy_def generateTaxonomy_outcome_def Let_def
           split: prod.splits sum.splits)

lemma generateTaxonomy_blank_no_request:
  "generateTaxonomy_outcome env n = Blank \<Longrightarrow> requests (generateTaxonomy env n pg) = requests pg"
  by (auto simp: generateTaxonomy_def generateTaxonomy_outcome_def Let_def
           split: prod.splits sum.splits if_splits)

text \<open>
  C9.  Whenever \<^verbatim>\<open>generateTaxonomy\<close> obtains a taxonomy for a name, the last level of its
  hierarchy has rank Species and a name that is not empty, so the hierarchy is not empty;
  that name is the species field of the classification record when the field is present
  and not empty, and the queried name otherwise.
\<close>

theorem species_level_always_present:
  assumes "generateTaxonomy_outcome env n = Generated td"
  shows "hierarchy td \<noteq> []
         \<and> rank (last (hierarchy td)) = ''Species''
         \<and> name (last (hierarchy td)) \<noteq> []
         \<and> (\<exists>ok key speciesJson. gbif_species env key = Response ok (Some speciesJson)
               \<and> name (last (hierarchy td))
                   = (if populated (sj_species speciesJson) then the (sj_species speciesJson)
                      else n))"
proof -
  from assms have ne: "n \<noteq> []"
    by (auto simp: generateTaxonomy_outcome_def dest: trim_nonempty split: if_splits)
  from assms have res: "snd (generateTaxonomyHierarchy env n) = Inr td"
    by (auto simp: generateTaxonomy_outcome_def split: if_splits sum.splits)
  then obtain ok key sj where sp: "gbif_species env key = Response ok (Some sj)"
    and h: "hierarchy td = build_hierarchy sj n"
    by (auto simp: generateTaxonomyHierarchy_def split: http.splits option.splits)
  let ?s = "\<lparr>rank = ''Species'', name = or_else (sj_species sj) n,
              description = Some ''Specific organism.''\<rparr>"
  have nm: "or_else (sj_species sj) n \<noteq> []"
    using ne by (cases "populated (sj_species sj)")
                (simp_all add: or_else_populated or_else_not_populated populated_the)
  have "\<exists>pre. build_hierarchy sj n = pre @ [?s]"
    using nm by (simp add: build_hierarchy_def all_levels_def)
  then obtain pre where pre: "hierarchy td = pre @ [?s]"
    using h by auto
  have val: "or_else (sj_species sj) n = (if populated (sj_species sj) then the (sj_species sj) else n)"
    by (simp add: or_else_populated or_else_not_populated)
  from pre nm val sp show ?thesis by auto
qed

theorem species_level_always_present_witness:
  "(\<exists>td. generateTaxonomy_outcome gbif_ok ''Homo sapiens'' = Generated td
         \<and> map name (hierarchy td) = [''Animalia'', ''Primates'', ''Homo'', ''Homo sapiens''])
   \<and> generateTaxonomy_outcome gbif_ok [] = Blank"
proof -
  have o: "generateTaxonomy_outcome gbif_ok ''Homo sapiens''
             = Generated \<lparr>species = ''Homo sapiens'',
                           hierarchy = build_hierarchy genus_only_json ''Homo sapiens'',
                           funFact = ''No fun fact found.''\<rparr>"
  proof -
    have "trim ''Homo sapiens'' \<noteq> []" by code_simp
    then show ?thesis
      by (simp add: generateTaxonomy_outcome_def generateTaxonomyHierarchy_def gbif_ok_def
                    truthy_key_def fun_fact_def)
  qed
  have m: "map name (build_hierarchy genus_only_json ''Homo sapiens'')
             = [''Animalia'', ''Primates'', ''Homo'', ''Homo sapiens'']"
    by (simp add: build_hierarchy_def all_levels_def genus_only_json_def or_else_def)
  have b: "generateTaxonomy_outcome gbif_ok [] = Blank"
    by (simp add: generateTaxonomy_outcome_def trim_def)
  from species_level_always_present [OF o]
  have "name (last (build_hierarchy genus_only_json ''Homo sapiens'')) \<noteq> []" by simp
  with o m b show ?thesis by simp
qed

section \<open>Claims about the suggestions\<close>

lemma startsWith_prefix: "startsWith s q \<longleftrightarrow> prefix q s"
proof
  assume "startsWith s q"
  then have "q = take (length q) s" by (simp add: startsWith_def)
  then have "s = q @ drop (length q) s" by (metis append_take_drop_id)
  then show "prefix q s" by (metis prefixI)
next
  assume "prefix q s"
  then show "startsWith s q" by (auto simp: startsWith_def prefix_def)
qed

lemma includes_sublist: "includes_str s q \<longleftrightarrow> sublist q s"
  by (induction s) (simp_all add: sublist_Cons_right startsWith_prefix)

lemma starts_filter:
  "filter (\<lambda>n. startsWith (toLowerCase n) (toLowerCase (trim partial))) names
     = filter (starts_with_query partial) names"
  by (rule filter_cong) (simp_all add: starts_with_query_def query_of_def startsWith_prefix)

lemma merely_filter:
  "filter (\<lambda>n. \<not> startsWith (toLowerCase n) (toLowerCase (trim partial))
                \<and> includes_str (toLowerCase n) (toLowerCase (trim partial))) names
     = filter (merely_contains_query partial) names"
  by (rule filter_cong)
     (auto simp: merely_contains_query_def starts_with_query_def contains_query_def
                 query_of_def startsWith_prefix includes_sublist)

lemma contains_filter:
  "filter (\<lambda>n. includes_str (toLowerCase n) (toLowerCase (trim partial))) names
     = filter (contains_query partial) names"
  by (rule filter_cong) (simp_all add: contains_query_def query_of_def includes_sublist)

lemma starts_contains: "starts_with_query partial n \<Longrightarrow> contains_query partial n"
  by (simp add: starts_with_query_def contains_query_def prefix_imp_sublist)

lemma suggestions_from_blank: "trim partial = [] \<Longrightarrow> suggestions_from names partial = []"
  by (simp add: suggestions_from_def)

lemma suggestions_from_take:
  "trim partial \<noteq> [] \<Longrightarrow>
     suggestions_from names partial
       = take 10 (filter (starts_with_query partial) names
                  @ filter (merely_contains_query partial) names)"
  by (simp add: suggestions_from_def Let_def slice0_def starts_filter merely_filter)

lemma search_suggestions_from_blank:
  "trim partial = [] \<Longrightarrow> search_suggestions_from names partial = []"
  by (simp add: search_suggestions_from_def)

lemma search_suggestions_from_take:
  "trim partial \<noteq> [] \<Longrightarrow>
     search_suggestions_from names partial = take 10 (filter (contains_query partial) names)"
  by (simp add: search_suggestions_from_def Let_def slice0_def contains_filter)

lemma take_append_tiers:
  "\<exists>xs ys. take k (A @ B) = xs @ ys \<and> prefix xs A \<and> prefix ys B
           \<and> (ys \<noteq> [] \<longrightarrow> xs = A)
           \<and> (length (xs @ ys) < k \<longrightarrow> xs = A \<and> ys = B)"
proof -
  let ?xs = "take k A" and ?ys = "take (k - length A) B"
  have "take k (A @ B) = ?xs @ ?ys" by simp
  moreover have "prefix ?xs A" and "prefix ?ys B" by (simp_all add: take_is_prefix)
  moreover have "?ys \<noteq> [] \<longrightarrow> ?xs = A" by auto
  moreover have "length (?xs @ ?ys) < k \<longrightarrow> ?xs = A \<and> ?ys = B" by auto
  ultimately show ?thesis by blast
qed

lemma suggestions_from_contains:
  assumes "n \<in> set (suggestions_from names partial)"
  shows "contains_query partial n"
proof (cases "trim partial = []")
  case True
  with assms show ?thesis by (simp add: suggestions_from_blank)
next
  case False
  from assms have "n \<in> set (filter (starts_with_query partial) names
                              @ filter (merely_contains_query partial) names)"
    unfolding suggestions_from_take [OF False] by (rule in_set_takeD)
  then show ?thesis
    by (auto simp: starts_contains merely_contains_query_def split: if_splits)
qed

text \<open>
  C4, as stated, fails for the matcher of the species search page, which is a plain
  substring filter: for the query ``c'' it puts Ursus arctos, which merely contains the
  query, before Canis lupus, which starts with it.
\<close>

theorem search_page_tier_counterexample:
  "search_suggestions ''c''
     = [''Ursus arctos'', ''Canis lupus'', ''Felis catus'', ''Equus caballus'', ''Sus scrofa'',
        ''Ailuropoda melanoleuca'', ''Giraffa camelopardalis'', ''Crocodylus niloticus'',
        ''Struthio camelus'', ''Spheniscus demersus'']
   \<and> merely_contains_query ''c'' ''Ursus arctos''
   \<and> starts_with_query ''c'' ''Canis lupus''"
  by code_simp

text \<open>
  C4, amended.  Both matchers return the empty list for an input that is empty after
  trimming, and at most 10 names otherwise, each of which contains the lower-cased trimmed
  query in its lower-cased form.  For an input that is not blank, the result of the
  taxonomy chart's matcher splits into a first part, an initial segment of the names that
  start with the query in list order, and a second part, an initial segment of the names
  that merely contain it in list order; the second part is empty unless the first holds
  all names that start with the query, and nothing is left out unless the result has 10
  names.  The result of the species search page's matcher is instead the first 10 names
  that contain the query, in list order, with no tiers.
\<close>

theorem suggestion_matchers:
  "(trim partial = [] \<longrightarrow>
       suggestions_from names partial = [] \<and> search_suggestions_from names partial = [])
   \<and> length (suggestions_from names partial) \<le> 10
   \<and> length (search_suggestions_from names partial) \<le> 10
   \<and> (\<forall>n \<in> set (suggestions_from names partial). contains_query partial n)
   \<and> (trim partial \<noteq> [] \<longrightarrow>
        (\<exists>xs ys. suggestions_from names partial = xs @ ys
            \<and> prefix xs (filter (starts_with_query partial) names)
            \<and> prefix ys (filter (merely_contains_query partial) names)
            \<and> (ys \<noteq> [] \<longrightarrow> xs = filter (starts_with_query partial) names)
            \<and> (length (xs @ ys) < 10 \<longrightarrow>
                  xs = filter (starts_with_query partial) names
                  \<and> ys = filter (merely_contains_query partial) names))
        \<and> search_suggestions_from names partial
            = take 10 (filter (contains_query partial) names))"
proof -
  have blank: "trim partial = [] \<longrightarrow>
       suggestions_from names partial = [] \<and> search_suggestions_from names partial = []"
    by (simp add: suggestions_from_blank search_suggestions_from_blank)
  have len1: "length (suggestions_from names partial) \<le> 10"
    by (cases "trim partial = []") (simp_all add: suggestions_from_blank suggestions_from_take)
  have len2: "length (search_suggestions_from names partial) \<le> 10"
    by (cases "trim partial = []")
       (simp_all add: search_suggestions_from_blank search_suggestions_from_take)
  have cont: "\<forall>n \<in> set (suggestions_from names partial). contains_query partial n"
    using suggestions_from_contains by blast
  have tiers: "trim partial \<noteq> [] \<longrightarrow>
        (\<exists>xs ys. suggestions_from names partial = xs @ ys
            \<and> prefix xs (filter (starts_with_query partial) names)
            \<and> prefix ys (filter (merely_contains_query partial) names)
            \<and> (ys \<noteq> [] \<longrightarrow> xs = filter (starts_with_query partial) names)
            \<and> (length (xs @ ys) < 10 \<longrightarrow>
                  xs = filter (starts_with_query partial) names
                  \<and> ys = filter (merely_contains_query partial) names))"
    using take_append_tiers
            [of 10 "filter (starts_with_query partial) names"
                   "filter (merely_contains_query partial) names"]
    by (simp add: suggestions_from_take)
  have plain: "trim partial \<noteq> [] \<longrightarrow>
        search_suggestions_from names partial = take 10 (filter (contains_query partial) names)"
    by (simp add: search_suggestions_from_take)
  from blank len1 len2 cont tiers plain show ?thesis by blast
qed

theorem suggestion_matchers_witness:
  "trim ''pan'' \<noteq> []
   \<and> suggestions ''pan'' = [''Panthera leo'', ''Panthera tigris'', ''Pan troglodytes'']
   \<and> ''Panthera leo'' \<in> set ALL_SCIENTIFIC_NAMES
   \<and> ''Pongo pygmaeus'' \<in> set ALL_SCIENTIFIC_NAMES
   \<and> ''Pongo pygmaeus'' \<notin> set (suggestions ''pan'')
   \<and> suggestions ''   '' = []
   \<and> length (suggestions ''a'') = 10
   \<and> (\<exists>xs ys. suggestions ''pan'' = xs @ ys
          \<and> prefix xs (filter (starts_with_query ''pan'') ALL_SCIENTIFIC_NAMES)
          \<and> prefix ys (filter (merely_contains_query ''pan'') ALL_SCIENTIFIC_NAMES))
   \<and> search_suggestions ''pan''
       = take 10 (filter (contains_query ''pan'') ALL_SCIENTIFIC_NAMES)"
proof -
  have a: "trim ''pan'' \<noteq> []" by code_simp
  have b: "suggestions ''pan'' = [''Panthera leo'', ''Panthera tigris'', ''Pan troglodytes'']"
    by code_simp
  have c: "''Panthera leo'' \<in> set ALL_SCIENTIFIC_NAMES" by code_simp
  have d: "''Pongo pygmaeus'' \<in> set ALL_SCIENTIFIC_NAMES" by code_simp
  have e: "\<not> contains_query ''pan'' ''Pongo pygmaeus''" by code_simp
  have f: "trim ''   '' = []" by code_simp
  have g: "length (suggestions ''a'') = 10" by code_simp
  from suggestion_matchers [of "''pan''" ALL_SCIENTIFIC_NAMES] e
  have h: "''Pongo pygmaeus'' \<notin> set (suggestions ''pan'')"
    unfolding suggestions_def by blast
  from suggestion_matchers [of "''   ''" ALL_SCIENTIFIC_NAMES] f
  have i: "suggestions ''   '' = []"
    unfolding suggestions_def by blast
  from suggestion_matchers [of "''pan''" ALL_SCIENTIFIC_NAMES] a
  have j: "\<exists>xs ys. suggestions ''pan'' = xs @ ys
          \<and> prefix xs (filter (starts_with_query ''pan'') ALL_SCIENTIFIC_NAMES)
          \<and> prefix ys (filter (merely_contains_query ''pan'') ALL_SCIENTIFIC_NAMES)"
    and k: "search_suggestions ''pan''
              = take 10 (filter (contains_query ''pan'') ALL_SCIENTIFIC_NAMES)"
    unfolding suggestions_def search_suggestions_def by blast+
  from a b c d h i g j k show ?thesis by blast
qed

end
